theory Spec2Isabelle
  imports Complex_Main "HOL-Library.Log_Nat"
begin

section \<open>Python values used by main.py\<close>

text \<open>
  Exceptions are values. \<open>ValueError\<close> is raised by the source itself (with its message),
  \<open>JSONDecodeError\<close> by \<open>r.json()\<close>, \<open>KeyError\<close> by a subscript on a dict that lacks the key
  (the key is its argument), \<open>IndexError\<close> by \<open>random.choice\<close> on an empty sequence and
  \<open>ZeroDivisionError\<close> by \<open>100.0 / 0\<close>. \<open>SubscriptError\<close> stands for the KeyError or
  TypeError of a chain of subscripts such as \<open>json["response"]["games"]\<close> on a body of
  another shape: which key or type it names depends on the body, and the model does not
  say. \<open>EmptySelectionError\<close> is the error kind the specification names; no statement
  of main.py raises it.
\<close>

datatype error =
    ValueError string
  | JSONDecodeError
  | KeyError string
  | SubscriptError
  | IndexError
  | ZeroDivisionError
  | EmptySelectionError

subsection \<open>Floats: IEEE-754 binary64 with round-to-nearest, ties-to-even\<close>

text \<open>
  A Python float is a binary64 number. A finite one is the rational it denotes (the two
  zeros are one value: the program never divides by a zero without raising and never
  looks at the sign of a zero). The result of \<open>/\<close> and \<open>*\<close> is the exact quotient or
  product rounded to the nearest representable number, ties to the even significand,
  and an infinity once the rounded magnitude reaches \<open>2^1024\<close>.
\<close>

datatype pyfloat = Finite rat | PosInf | NegInf | NaN

definition round_half_even :: "rat \<Rightarrow> int" where
  "round_half_even r =
     (let f = \<lfloor>r\<rfloor>; d = r - of_int f
      in if d < 1 / 2 then f else if 1 / 2 < d then f + 1 else if even f then f else f + 1)"

text \<open>The binary exponent of a positive rational: \<open>2^e \<le> q < 2^(e+1)\<close>.\<close>

definition ilog2 :: "rat \<Rightarrow> int" where
  "ilog2 q =
     (let (a, b) = quotient_of q; k = bitlen a - bitlen b
      in if 2 powi k \<le> q then k else k - 1)"

text \<open>
  Rounding a positive rational to 53 significant bits; below \<open>2^-1022\<close> the spacing
  stays that of the subnormal numbers, \<open>2^-1074\<close>.
\<close>

definition round_pos :: "rat \<Rightarrow> rat" where
  "round_pos q =
     (let e = max (ilog2 q) (- 1022); u = 2 powi (e - 52)
      in of_int (round_half_even (q / u)) * u)"

definition fl :: "rat \<Rightarrow> pyfloat" where
  "fl q =
     (if q = 0 then Finite 0
      else if 0 < q then (let r = round_pos q in if 2 powi 1024 \<le> r then PosInf else Finite r)
      else (let r = round_pos (- q) in if 2 powi 1024 \<le> r then NegInf else Finite (- r)))"

text \<open>A rational is a float when rounding leaves it alone.\<close>

definition is_binary64 :: "rat \<Rightarrow> bool" where
  "is_binary64 q = (fl q = Finite q)"

text \<open>
  \<open>a / b\<close> on floats: Python raises on a zero divisor before anything else; the rest
  is IEEE division.
\<close>

fun float_div :: "pyfloat \<Rightarrow> pyfloat \<Rightarrow> error + pyfloat" where
  "float_div a (Finite y) =
     (if y = 0 then Inl ZeroDivisionError
      else case a of
             Finite x \<Rightarrow> Inr (fl (x / y))
           | PosInf \<Rightarrow> Inr (if 0 < y then PosInf else NegInf)
           | NegInf \<Rightarrow> Inr (if 0 < y then NegInf else PosInf)
           | NaN \<Rightarrow> Inr NaN)"
| "float_div a NaN = Inr NaN"
| "float_div a b = (case a of Finite x \<Rightarrow> Inr (Finite 0) | _ \<Rightarrow> Inr NaN)"

fun float_mul :: "pyfloat \<Rightarrow> pyfloat \<Rightarrow> pyfloat" where
  "float_mul (Finite x) (Finite y) = fl (x * y)"
| "float_mul NaN b = NaN"
| "float_mul a NaN = NaN"
| "float_mul (Finite x) PosInf = (if x = 0 then NaN else if 0 < x then PosInf else NegInf)"
| "float_mul (Finite x) NegInf = (if x = 0 then NaN else if 0 < x then NegInf else PosInf)"
| "float_mul PosInf (Finite y) = (if y = 0 then NaN else if 0 < y then PosInf else NegInf)"
| "float_mul NegInf (Finite y) = (if y = 0 then NaN else if 0 < y then NegInf else PosInf)"
| "float_mul PosInf PosInf = PosInf"
| "float_mul NegInf NegInf = PosInf"
| "float_mul PosInf NegInf = NegInf"
| "float_mul NegInf PosInf = NegInf"

text \<open>\<open>x >= c\<close> for a float and an int: Python compares the exact values.\<close>

fun float_ge_int :: "pyfloat \<Rightarrow> int \<Rightarrow> bool" where
  "float_ge_int (Finite x) c = (of_int c \<le> x)"
| "float_ge_int PosInf c = True"
| "float_ge_int NegInf c = False"
| "float_ge_int NaN c = False"

fun float_lt :: "pyfloat \<Rightarrow> pyfloat \<Rightarrow> bool" where
  "float_lt NaN b = False"
| "float_lt a NaN = False"
| "float_lt (Finite x) (Finite y) = (x < y)"
| "float_lt a PosInf = (a \<noteq> PosInf)"
| "float_lt NegInf b = (b \<noteq> NegInf)"
| "float_lt a b = False"

subsection \<open>random.choice\<close>

text \<open>
  \<open>random.choice(seq)\<close> raises IndexError on an empty sequence and returns
  \<open>seq[randbelow(len(seq))]\<close> otherwise. The generator is a parameter; its draw is
  reduced modulo the length, so that every function is a generator.
\<close>

definition choice :: "(nat \<Rightarrow> nat) \<Rightarrow> 'a list \<Rightarrow> error + 'a" where
  "choice randbelow seq =
     (if seq = [] then Inl IndexError
      else Inr (seq ! (randbelow (length seq) mod length seq)))"

section \<open>Data model\<close>

text \<open>
  The dicts of the API responses, with the keys the program reads. A schema entry has
  no \<open>percent\<close> when it is fetched; an \<open>item\<close> is a schema entry during processing, whose
  \<open>percent\<close> key may be absent (\<open>None\<close>). A percent is a float; a JSON integer such as
  \<open>50\<close> is the number that \<open>100.0 / 50\<close> and \<open>50 * 2.0\<close> convert it to, \<open>Finite 50\<close>.
\<close>

record game =
  appid :: int
  name :: string
  playtime_forever :: int

record stat =
  name :: string
  percent :: pyfloat

record schema_achievement =
  name :: string
  displayName :: string

record item = schema_achievement +
  percent :: "pyfloat option"

section \<open>API client\<close>

datatype token = TStr string | TInt int

text \<open>
  A request is the path template with the substitution tokens of the call. The remote
  API is a function from requests to responses; a transport failure inside
  \<open>requests.get\<close> is not part of the model.
\<close>

type_synonym request = "string \<times> (string \<times> token) list"

text \<open>
  The parsed JSON body of a response, by shape: the four shapes the program subscripts,
  and any other JSON value.
\<close>

datatype json =
    ResolveVanityURL int string
  | GetOwnedGames "game list"
  | GetGlobalAchievementPercentagesForApp "stat list"
  | GetSchemaForGame "schema_achievement list"
  | OtherJson

text \<open>\<open>body\<close> is \<open>None\<close> when the response body is not JSON.\<close>

record response =
  status_code :: int
  body :: "json option"

text \<open>What the program has done that can be observed: the requests sent and the lines printed.\<close>

datatype out = Text string | Listing string pyfloat

record trace =
  calls :: "request list"
  printed :: "out list"

definition steam_api_call_json ::
  "(request \<Rightarrow> response) \<Rightarrow> string \<Rightarrow> (string \<times> token) list \<Rightarrow> trace \<Rightarrow> (error + json) \<times> trace" where
  "steam_api_call_json http template url_tokens t =
     (let r = http (template, url_tokens);
          t' = t\<lparr>calls := calls t @ [(template, url_tokens)]\<rparr>
      in if status_code r \<noteq> 200 then (Inl (ValueError ''Status code of request is not 200.''), t')
         else case body r of
                None \<Rightarrow> (Inl JSONDecodeError, t')
              | Some j \<Rightarrow> (Inr j, t'))"

definition vanity_template :: string where
  "vanity_template = ''ISteamUser/ResolveVanityURL/v0001/?key={key}&vanityurl={vanity}''"

definition owned_games_template :: string where
  "owned_games_template = ''IPlayerService/GetOwnedGames/v0001/?key={key}&steamid={id}&include_appinfo=1''"

definition achievement_stats_template :: string where
  "achievement_stats_template =
     ''ISteamUserStats/GetGlobalAchievementPercentagesForApp/v0002/?gameid={game_id}''"

definition schema_template :: string where
  "schema_template = ''ISteamUserStats/GetSchemaForGame/v2/?key={key}&appid={app_id}''"

definition get_id_from_vanity ::
  "(request \<Rightarrow> response) \<Rightarrow> string \<Rightarrow> string \<Rightarrow> trace \<Rightarrow> (error + string) \<times> trace" where
  "get_id_from_vanity http key vanity t =
     (case steam_api_call_json http vanity_template [(''key'', TStr key), (''vanity'', TStr vanity)] t of
        (Inl e, t') \<Rightarrow> (Inl e, t')
      | (Inr j, t') \<Rightarrow>
          (case j of
             ResolveVanityURL success steamid \<Rightarrow>
               if success \<noteq> 1 then (Inl (ValueError ''Failed to get Steam ID from vanity name.''), t')
               else (Inr steamid, t')
           | _ \<Rightarrow> (Inl SubscriptError, t')))"

definition get_owned_games ::
  "(request \<Rightarrow> response) \<Rightarrow> string \<Rightarrow> string \<Rightarrow> trace \<Rightarrow> (error + game list) \<times> trace" where
  "get_owned_games http key steam_id t =
     (case steam_api_call_json http owned_games_template [(''key'', TStr key), (''id'', TStr steam_id)] t of
        (Inl e, t') \<Rightarrow> (Inl e, t')
      | (Inr j, t') \<Rightarrow>
          (case j of
             GetOwnedGames games \<Rightarrow> (Inr games, t')
           | _ \<Rightarrow> (Inl SubscriptError, t')))"

section \<open>Identifier resolver\<close>

text \<open>
  The three patterns of \<open>parse_id_input\<close>. \<open>[0-9]\<close> is an ASCII digit, \<open>.\<close> is any
  character but the line feed, and \<open>$\<close> matches at the end of the string and just before
  a line feed that ends the string. \<open>re.match\<close> tries the pattern at the start of the
  string, \<open>re.search\<close> at every position from left to right.
\<close>

definition digit :: "char \<Rightarrow> bool" where
  "digit c = (c \<in> set ''0123456789'')"

definition newline :: char where
  "newline = CHR 0x0A"

definition at_dollar :: "string \<Rightarrow> bool" where
  "at_dollar rest = (rest = [] \<or> rest = [newline])"

definition digits17 :: "string \<Rightarrow> bool" where
  "digits17 s = (length s = 17 \<and> list_all digit s)"

text \<open>\<open>re.match(r'^[0-9]{17}$', s)\<close>\<close>

definition match_steamid64 :: "string \<Rightarrow> bool" where
  "match_steamid64 s = (digits17 (take 17 s) \<and> at_dollar (drop 17 s))"

text \<open>\<open>profiles/([0-9]{17})$\<close> tried at the start of \<open>s\<close>; the result is group 1.\<close>

definition match_profiles :: "string \<Rightarrow> string option" where
  "match_profiles s =
     (let r = drop 9 s
      in if take 9 s = ''profiles/'' \<and> digits17 (take 17 r) \<and> at_dollar (drop 17 r)
         then Some (take 17 r) else None)"

text \<open>
  \<open>id/(.*)$\<close> tried at the start of \<open>s\<close>: the greedy \<open>.*\<close> takes everything up to the
  first line feed, and only there can \<open>$\<close> match.
\<close>

definition match_id :: "string \<Rightarrow> string option" where
  "match_id s =
     (let r = drop 3 s
      in if take 3 s = ''id/'' \<and> at_dollar (dropWhile (\<lambda>c. c \<noteq> newline) r)
         then Some (takeWhile (\<lambda>c. c \<noteq> newline) r) else None)"

fun re_search :: "(string \<Rightarrow> 'a option) \<Rightarrow> string \<Rightarrow> 'a option" where
  "re_search m [] = m []"
| "re_search m (c # cs) = (case m (c # cs) of Some g \<Rightarrow> Some g | None \<Rightarrow> re_search m cs)"

definition parse_id_input ::
  "(request \<Rightarrow> response) \<Rightarrow> string \<Rightarrow> string \<Rightarrow> trace \<Rightarrow> (error + string) \<times> trace" where
  "parse_id_input http id_input api_key t =
     (if match_steamid64 id_input then (Inr id_input, t)
      else case re_search match_profiles id_input of
             Some steamid \<Rightarrow> (Inr steamid, t)
           | None \<Rightarrow>
               (case re_search match_id id_input of
                  Some vanity \<Rightarrow> get_id_from_vanity http api_key vanity t
                | None \<Rightarrow> get_id_from_vanity http api_key id_input t))"

section \<open>Game selector\<close>

definition selectable_games :: "bool \<Rightarrow> int \<Rightarrow> game list \<Rightarrow> game list" where
  "selectable_games all_games time_played owned_games =
     (if all_games then owned_games
      else filter (\<lambda>game. playtime_forever game \<le> time_played) owned_games)"

definition pick_random_game ::
  "(request \<Rightarrow> response) \<Rightarrow> (nat \<Rightarrow> nat) \<Rightarrow> string \<Rightarrow> string \<Rightarrow> bool \<Rightarrow> int \<Rightarrow> trace
     \<Rightarrow> (error + game) \<times> trace" where
  "pick_random_game http randbelow key user_id all_games time_played t =
     (case parse_id_input http user_id key t of
        (Inl e, t1) \<Rightarrow> (Inl e, t1)
      | (Inr steam_id, t1) \<Rightarrow>
          (case get_owned_games http key steam_id t1 of
             (Inl e, t2) \<Rightarrow> (Inl e, t2)
           | (Inr owned_games, t2) \<Rightarrow>
               (choice randbelow (selectable_games all_games time_played owned_games), t2)))"

section \<open>Achievement selector\<close>

definition get_achievement_stats_for_game ::
  "(request \<Rightarrow> response) \<Rightarrow> int \<Rightarrow> trace \<Rightarrow> (error + stat list) \<times> trace" where
  "get_achievement_stats_for_game http game_id t =
     (case steam_api_call_json http achievement_stats_template [(''game_id'', TInt game_id)] t of
        (Inl e, t') \<Rightarrow> (Inl e, t')
      | (Inr j, t') \<Rightarrow>
          (case j of
             GetGlobalAchievementPercentagesForApp achievements \<Rightarrow> (Inr achievements, t')
           | _ \<Rightarrow> (Inl SubscriptError, t')))"

definition get_schema_for_game ::
  "(request \<Rightarrow> response) \<Rightarrow> string \<Rightarrow> int \<Rightarrow> trace \<Rightarrow> (error + json) \<times> trace" where
  "get_schema_for_game http key app_id t =
     steam_api_call_json http schema_template [(''key'', TStr key), (''app_id'', TInt app_id)] t"

text \<open>Line 80: \<open>modifier = 100.0 / achievements[0]["percent"]\<close>, on a non-empty list.\<close>

definition modifier_of :: "stat list \<Rightarrow> error + pyfloat" where
  "modifier_of achievements = float_div (Finite 100) (stat.percent (achievements ! 0))"

text \<open>Line 81: the list comprehension.\<close>

definition candidates_of :: "pyfloat \<Rightarrow> int \<Rightarrow> stat list \<Rightarrow> stat list" where
  "candidates_of modifier cutoff achievements =
     filter (\<lambda>achievement. float_ge_int (float_mul (stat.percent achievement) modifier) cutoff)
       achievements"

text \<open>
  Lines 82 to 86. The two lists are the state of the loops; the inner loop stops at the
  first stat of the item's name.
\<close>

record locals =
  l_achievements :: "stat list"
  l_schema_achievements :: "item list"

fun enrich_item :: "item \<Rightarrow> stat list \<Rightarrow> item" where
  "enrich_item item [] = item"
| "enrich_item item (stat # rest) =
     (if schema_achievement.name item = stat.name stat
      then item\<lparr>percent := Some (stat.percent stat)\<rparr>
      else enrich_item item rest)"

definition enrich :: "locals \<Rightarrow> locals" where
  "enrich s =
     s\<lparr>l_schema_achievements :=
         map (\<lambda>item. enrich_item item (l_achievements s)) (l_schema_achievements s)\<rparr>"

text \<open>
  Line 88: \<open>sorted\<close> reads the key of every entry first, then sorts stably with \<open><\<close>;
  \<open>reversed\<close> turns the result around. The sort is a stable insertion sort, which is the
  result of any stable sort when no key is NaN. With a NaN key \<open><\<close> is no order, the
  result of Python's \<open>sorted\<close> depends on the comparisons its implementation happens to
  make, and the list computed here need not be the one Python prints (for the keys 1.0,
  NaN, 0.0 Python leaves the list as it is, this sort does not); nothing below states
  the order of the listing.
\<close>

fun key_percent :: "item list \<Rightarrow> error + (pyfloat \<times> item) list" where
  "key_percent [] = Inr []"
| "key_percent (tup # rest) =
     (case percent tup of
        None \<Rightarrow> Inl (KeyError ''percent'')
      | Some p \<Rightarrow> (case key_percent rest of Inl e \<Rightarrow> Inl e | Inr ks \<Rightarrow> Inr ((p, tup) # ks)))"

fun insort_lt :: "pyfloat \<times> item \<Rightarrow> (pyfloat \<times> item) list \<Rightarrow> (pyfloat \<times> item) list" where
  "insort_lt x [] = [x]"
| "insort_lt x (y # ys) = (if float_lt (fst x) (fst y) then x # y # ys else y # insort_lt x ys)"

definition sorted_by_unlocked :: "item list \<Rightarrow> error + (pyfloat \<times> item) list" where
  "sorted_by_unlocked schema =
     (case key_percent schema of
        Inl e \<Rightarrow> Inl e
      | Inr ks \<Rightarrow> Inr (rev (foldl (\<lambda>acc x. insort_lt x acc) [] ks)))"

text \<open>
  Line 90: the line printed for an achievement, as the two arguments of the format
  \<open>"%s: %.1f%%"\<close>; the display name has every non-ASCII character replaced by a question
  mark.
\<close>

definition ascii_replace :: "string \<Rightarrow> string" where
  "ascii_replace s = map (\<lambda>c. if (of_char c :: nat) < 128 then c else CHR ''?'') s"

definition listing_line :: "pyfloat \<times> item \<Rightarrow> out" where
  "listing_line x = Listing (ascii_replace (displayName (snd x))) (fst x)"

text \<open>Lines 93 to 96: the loop has no break, so the last entry of the name wins.\<close>

fun find_display_name :: "item list \<Rightarrow> string \<Rightarrow> string \<Rightarrow> string" where
  "find_display_name [] random_cheevo_name found_display_name = found_display_name"
| "find_display_name (item # rest) random_cheevo_name found_display_name =
     find_display_name rest random_cheevo_name
       (if schema_achievement.name item = random_cheevo_name then displayName item
        else found_display_name)"

text \<open>A fetched schema entry as the dict the loops work on: no \<open>percent\<close> key yet.\<close>

definition as_item :: "schema_achievement \<Rightarrow> item" where
  "as_item a =
     \<lparr>name = schema_achievement.name a, displayName = displayName a, percent = None\<rparr>"

definition get_random_achievement ::
  "(request \<Rightarrow> response) \<Rightarrow> (nat \<Rightarrow> nat) \<Rightarrow> string \<Rightarrow> int \<Rightarrow> int \<Rightarrow> trace
     \<Rightarrow> (error + string option) \<times> trace" where
  "get_random_achievement http randbelow key appid' cutoff t =
     (case get_achievement_stats_for_game http appid' t of
        (Inl e, t1) \<Rightarrow> (Inl e, t1)
      | (Inr achievements, t1) \<Rightarrow>
          if length achievements = 0
          then (Inr None, t1\<lparr>printed := printed t1 @ [Text ''No achievements for this game'']\<rparr>)
          else
            (case get_schema_for_game http key appid' t1 of
               (Inl e, t2) \<Rightarrow> (Inl e, t2)
             | (Inr schema, t2) \<Rightarrow>
                 (case schema of
                    GetSchemaForGame fetched \<Rightarrow>
                      (case modifier_of achievements of
                         Inl e \<Rightarrow> (Inl e, t2)
                       | Inr modifier \<Rightarrow>
                           (let candidates = candidates_of modifier cutoff achievements;
                                s = enrich \<lparr>l_achievements = achievements,
                                           l_schema_achievements = map as_item fetched\<rparr>
                            in case sorted_by_unlocked (l_schema_achievements s) of
                                 Inl e \<Rightarrow> (Inl e, t2)
                               | Inr sorted_list \<Rightarrow>
                                   (let t3 = t2\<lparr>printed := printed t2 @ map listing_line sorted_list\<rparr>
                                    in case choice randbelow candidates of
                                         Inl e \<Rightarrow> (Inl e, t3)
                                       | Inr c \<Rightarrow>
                                           (Inr (Some (find_display_name (l_schema_achievements s)
                                                         (stat.name c) [])), t3))))
                  | _ \<Rightarrow> (Inl SubscriptError, t2))))"

text \<open>The cutoff of the only call of the program (the default of the parameter).\<close>

definition default_cutoff :: int where
  "default_cutoff = 80"

section \<open>Fixed responses and a fixed generator for the examples\<close>

text \<open>
  An API that answers the percentages request with the given stats and every other
  request with the given schema; one that answers every request with the given library;
  and the generator whose draw is always 0.
\<close>

definition fixed_http :: "stat list \<Rightarrow> schema_achievement list \<Rightarrow> request \<Rightarrow> response" where
  "fixed_http stats schema r =
     (if fst r = achievement_stats_template
      then \<lparr>status_code = 200, body = Some (GetGlobalAchievementPercentagesForApp stats)\<rparr>
      else \<lparr>status_code = 200, body = Some (GetSchemaForGame schema)\<rparr>)"

definition library_http :: "game list \<Rightarrow> request \<Rightarrow> response" where
  "library_http games r = \<lparr>status_code = 200, body = Some (GetOwnedGames games)\<rparr>"

definition vanity_http :: "string \<Rightarrow> request \<Rightarrow> response" where
  "vanity_http steamid r = \<lparr>status_code = 200, body = Some (ResolveVanityURL 1 steamid)\<rparr>"

definition always_first :: "nat \<Rightarrow> nat" where
  "always_first n = 0"

definition no_trace :: trace where
  "no_trace = \<lparr>calls = [], printed = []\<rparr>"

text \<open>The percentages and the schema of the specification's example.\<close>

definition example_stats :: "stat list" where
  "example_stats =
     [\<lparr>stat.name = ''A'', stat.percent = Finite 50\<rparr>, \<lparr>stat.name = ''B'', stat.percent = Finite 10\<rparr>]"

definition example_schema :: "schema_achievement list" where
  "example_schema =
     [\<lparr>name = ''A'', displayName = ''Alpha''\<rparr>, \<lparr>name = ''B'', displayName = ''Beta''\<rparr>]"

section \<open>Basic facts\<close>

lemma choice_member: "choice randbelow seq = Inr x \<Longrightarrow> x \<in> set seq"
  by (auto simp: choice_def split: if_splits)

lemma choice_nonempty: "seq \<noteq> [] \<Longrightarrow> \<exists>x\<in>set seq. choice randbelow seq = Inr x"
  by (simp add: choice_def)

lemma parse_steamid64_example:
  "parse_id_input http ''76561197960287930'' key t = (Inr ''76561197960287930'', t)"
  by (simp add: parse_id_input_def match_steamid64_def digits17_def digit_def at_dollar_def)

lemma enrich_item_find:
  "enrich_item item stats =
     (case find (\<lambda>st. stat.name st = schema_achievement.name item) stats of
        None \<Rightarrow> item
      | Some st \<Rightarrow> item\<lparr>percent := Some (stat.percent st)\<rparr>)"
  by (induction stats) auto

lemma owned_games_library:
  "get_owned_games (library_http gs) key sid t =
     (Inr gs, t\<lparr>calls := calls t @ [(owned_games_template, [(''key'', TStr key), (''id'', TStr sid)])]\<rparr>)"
  by (simp add: get_owned_games_def steam_api_call_json_def library_http_def)

lemma fixed_http_stats:
  "get_achievement_stats_for_game (fixed_http stats schema) game_id t =
     (Inr stats, t\<lparr>calls := calls t @ [(achievement_stats_template, [(''game_id'', TInt game_id)])]\<rparr>)"
  by (simp add: get_achievement_stats_for_game_def steam_api_call_json_def fixed_http_def)

lemma fixed_http_schema:
  "get_schema_for_game (fixed_http stats schema) key app_id t =
     (Inr (GetSchemaForGame schema),
      t\<lparr>calls := calls t @ [(schema_template, [(''key'', TStr key), (''app_id'', TInt app_id)])]\<rparr>)"
  by (simp add: get_schema_for_game_def steam_api_call_json_def fixed_http_def
      schema_template_def achievement_stats_template_def)

lemma api_call_error:
  "steam_api_call_json http template url_tokens t = (Inl e, t') \<Longrightarrow>
     e = ValueError ''Status code of request is not 200.'' \<or> e = JSONDecodeError"
  by (auto simp: steam_api_call_json_def Let_def split: if_splits option.splits)

lemma api_call_trace:
  "steam_api_call_json http template url_tokens t = (r, t') \<Longrightarrow>
     t' = t\<lparr>calls := calls t @ [(template, url_tokens)]\<rparr>"
  by (auto simp: steam_api_call_json_def Let_def split: if_splits option.splits)

lemma find_display_name_no_match:
  "\<forall>i\<in>set items. schema_achievement.name i \<noteq> n \<Longrightarrow> find_display_name items n found = found"
  by (induction items arbitrary: found) auto

lemma find_display_name_match:
  "\<exists>i\<in>set items. schema_achievement.name i = n \<Longrightarrow>
   \<exists>i\<in>set items. schema_achievement.name i = n \<and> find_display_name items n found = displayName i"
proof (induction items arbitrary: found)
  case Nil
  then show ?case by simp
next
  case (Cons x xs)
  show ?case
  proof (cases "\<exists>i\<in>set xs. schema_achievement.name i = n")
    case True
    from Cons.IH [OF True] show ?thesis by auto
  next
    case False
    with Cons.prems have "schema_achievement.name x = n" by auto
    moreover have "\<forall>i\<in>set xs. schema_achievement.name i \<noteq> n" using False by auto
    ultimately show ?thesis by (simp add: find_display_name_no_match)
  qed
qed

lemma enrich_item_name [simp]:
  "schema_achievement.name (enrich_item item stats) = schema_achievement.name item"
  by (simp add: enrich_item_find split: option.splits)

lemma enrich_item_displayName [simp]:
  "displayName (enrich_item item stats) = displayName item"
  by (simp add: enrich_item_find split: option.splits)

lemma as_item_simps [simp]:
  "schema_achievement.name (as_item a) = schema_achievement.name a"
  "displayName (as_item a) = displayName a"
  "percent (as_item a) = None"
  by (simp_all add: as_item_def)

lemma enrich_items:
  "l_schema_achievements (enrich \<lparr>l_achievements = achievements,
       l_schema_achievements = map as_item fetched\<rparr>) =
   map (\<lambda>a. enrich_item (as_item a) achievements) fetched"
  by (simp add: enrich_def comp_def)

lemma enrich_item_percent_None:
  "percent (enrich_item (as_item a) stats) = None \<longleftrightarrow>
     schema_achievement.name a \<notin> stat.name ` set stats"
  by (induction stats) (auto simp: as_item_def)

lemma length_insort_lt [simp]: "length (insort_lt x ys) = Suc (length ys)"
  by (induction ys) auto

lemma length_foldl_insort_lt:
  "length (foldl (\<lambda>acc x. insort_lt x acc) acc ks) = length acc + length ks"
  by (induction ks arbitrary: acc) auto

lemma key_percent_cases:
  "key_percent items =
     (if \<exists>i\<in>set items. percent i = None then Inl (KeyError ''percent'')
      else Inr (map (\<lambda>i. (the (percent i), i)) items))"
  by (induction items) (auto split: option.splits sum.splits)

section \<open>Floating-point rounding\<close>

lemma round_half_even_lower: "r - 1 / 2 \<le> of_int (round_half_even r)"
proof -
  have "of_int \<lfloor>r\<rfloor> \<le> r" "r < of_int \<lfloor>r\<rfloor> + 1" by linarith+
  then show ?thesis by (auto simp: round_half_even_def Let_def)
qed

lemma ilog2_bounds:
  assumes "0 < q"
  shows "2 powi ilog2 q \<le> q" and "q < 2 powi (ilog2 q + 1)"
proof -
  obtain a b where ab: "quotient_of q = (a, b)" by (cases "quotient_of q")
  have b: "0 < b" using ab by (rule quotient_of_denom_pos)
  have q: "q = of_int a / of_int b" using ab by (rule quotient_of_div)
  have a: "0 < a" using assms b q by (simp add: zero_less_divide_iff)
  define la lb where "la = bitlen a" and "lb = bitlen b"
  have la: "2 ^ nat (la - 1) \<le> a" "a < 2 ^ nat la"
    using bitlen_bounds [OF a] by (simp_all add: la_def)
  have lb: "2 ^ nat (lb - 1) \<le> b" "b < 2 ^ nat lb"
    using bitlen_bounds [OF b] by (simp_all add: lb_def)
  have la1: "1 \<le> la" using la(2) a by (cases "la \<le> 0") auto
  have lb1: "1 \<le> lb" using lb(2) b by (cases "lb \<le> 0") auto
  have A1: "(2::rat) powi (la - 1) \<le> of_int a"
  proof -
    have "(of_int (2 ^ nat (la - 1)) :: rat) \<le> of_int a" using la(1) by (simp only: of_int_le_iff)
    then show ?thesis using la1 by (simp add: power_int_nonneg_exp)
  qed
  have A2: "of_int a < (2::rat) powi la"
  proof -
    have "(of_int a :: rat) < of_int (2 ^ nat la)" using la(2) by (simp only: of_int_less_iff)
    then show ?thesis using la1 by (simp add: power_int_nonneg_exp)
  qed
  have B1: "(2::rat) powi (lb - 1) \<le> of_int b"
  proof -
    have "(of_int (2 ^ nat (lb - 1)) :: rat) \<le> of_int b" using lb(1) by (simp only: of_int_le_iff)
    then show ?thesis using lb1 by (simp add: power_int_nonneg_exp)
  qed
  have B2: "of_int b < (2::rat) powi lb"
  proof -
    have "(of_int b :: rat) < of_int (2 ^ nat lb)" using lb(2) by (simp only: of_int_less_iff)
    then show ?thesis using lb1 by (simp add: power_int_nonneg_exp)
  qed
  have lower: "(2::rat) powi (la - lb - 1) \<le> q"
  proof -
    have "(2::rat) powi (la - lb - 1) = 2 powi (la - 1) / 2 powi lb"
      using power_int_diff [of "2::rat" "la - 1" lb] by (simp add: algebra_simps)
    also have "\<dots> \<le> of_int a / of_int b"
      using a b A1 B2 by (intro frac_le) simp_all
    finally show ?thesis by (simp add: q)
  qed
  have upper: "q < (2::rat) powi (la - lb + 1)"
  proof -
    have "of_int a / of_int b < (2::rat) powi la / 2 powi (lb - 1)"
      using a A2 B1 by (intro frac_less) simp_all
    also have "\<dots> = 2 powi (la - lb + 1)"
      using power_int_diff [of "2::rat" la "lb - 1"] by (simp add: algebra_simps)
    finally show ?thesis by (simp add: q)
  qed
  have e: "ilog2 q = (if 2 powi (la - lb) \<le> q then la - lb else la - lb - 1)"
    by (simp add: ilog2_def ab la_def lb_def)
  show "2 powi ilog2 q \<le> q" using lower by (simp add: e)
  show "q < 2 powi (ilog2 q + 1)" using upper by (auto simp: e)
qed

lemma round_pos_lower:
  assumes "2 powi (- 1022) \<le> q"
  shows "q * (1 - 2 powi (- 53)) \<le> round_pos q"
proof -
  have qpos: "0 < q"
    using assms zero_less_power_int [of "2::rat" "- 1022"] by linarith
  define e where "e = max (ilog2 q) (- 1022)"
  define u where "u = (2::rat) powi (e - 52)"
  have upos: "0 < u" by (simp add: u_def)
  have le: "2 powi e \<le> q"
    using ilog2_bounds(1) [OF qpos] assms by (simp add: e_def max_def)
  have half: "u / 2 = 2 powi e * 2 powi (- 53)"
    using power_int_add [of "2::rat" e "- 53"] power_int_add [of "2::rat" "e - 53" 1]
    by (simp add: u_def algebra_simps)
  have "q / u - 1 / 2 \<le> of_int (round_half_even (q / u))"
    by (rule round_half_even_lower)
  then have "(q / u - 1 / 2) * u \<le> of_int (round_half_even (q / u)) * u"
    using upos by (simp only: mult_le_cancel_right_pos)
  then have "q - u / 2 \<le> round_pos q"
    using upos by (simp add: round_pos_def Let_def e_def [symmetric] u_def [symmetric] algebra_simps)
  moreover have "u / 2 \<le> q * 2 powi (- 53)"
    unfolding half using le by (intro mult_right_mono) simp_all
  ultimately show ?thesis by (simp add: algebra_simps)
qed

lemma fl_pos_cases:
  "0 < q \<Longrightarrow> fl q = PosInf \<or> fl q = Finite (round_pos q)"
  by (simp add: fl_def Let_def)

lemma first_entry_kept:
  assumes "0 < x" and "is_binary64 x" and "cutoff \<le> 99"
  shows "\<exists>m. float_div (Finite 100) (Finite x) = Inr m
             \<and> float_ge_int (float_mul (Finite x) m) cutoff"
proof -
  have x_lt: "x < 2 powi 1024"
    using assms(1,2) by (auto simp: is_binary64_def fl_def Let_def split: if_splits)
  have "2 powi (- 1022) * x \<le> 2 powi (- 1022) * 2 powi 1024"
    using x_lt by (intro mult_left_mono) simp_all
  also have "\<dots> = (2::rat) powi 2"
    using power_int_add [of "2::rat" "- 1022" 1024] by simp
  finally have q_ge: "2 powi (- 1022) \<le> 100 / x"
    using assms(1) by (simp add: pos_le_divide_eq)
  have qpos: "0 < 100 / x" using assms(1) by simp
  have div: "float_div (Finite 100) (Finite x) = Inr (fl (100 / x))"
    using assms(1) by simp
  let ?m = "round_pos (100 / x)"
  have m_ge: "100 / x * (1 - 2 powi (- 53)) \<le> ?m"
    by (rule round_pos_lower [OF q_ge])
  have c: "(of_int cutoff :: rat) \<le> 99" using assms(3) by (simp add: of_int_le_iff [of cutoff 99, where ?'a = rat, simplified])
  show ?thesis
  proof (cases "fl (100 / x) = PosInf")
    case True
    then show ?thesis using div assms(1) by simp
  next
    case False
    then have f: "fl (100 / x) = Finite ?m" using fl_pos_cases [OF qpos] by simp
    have "x * (100 / x * (1 - 2 powi (- 53))) \<le> x * ?m"
      using m_ge assms(1) by (simp only: mult_le_cancel_left_pos)
    then have p_ge: "100 * (1 - 2 powi (- 53)) \<le> x * ?m"
      using assms(1) by simp
    then have p_norm: "2 powi (- 1022) \<le> x * ?m" by simp
    have ppos: "0 < x * ?m" using p_ge by simp
    have r_ge: "x * ?m * (1 - 2 powi (- 53)) \<le> round_pos (x * ?m)"
      by (rule round_pos_lower [OF p_norm])
    have "100 * (1 - 2 powi (- 53)) * (1 - 2 powi (- 53)) \<le> x * ?m * (1 - 2 powi (- 53))"
      using p_ge by (intro mult_right_mono) simp_all
    then have "99 \<le> round_pos (x * ?m)" using r_ge by simp
    then have "float_ge_int (fl (x * ?m)) cutoff"
      using fl_pos_cases [OF ppos] c by auto
    then show ?thesis using div f by simp
  qed
qed

lemma fl_examples:
  "fl 2 = Finite 2" "fl 100 = Finite 100" "fl 20 = Finite 20" "fl 97 = Finite 97" "fl 50 = Finite 50"
  "fl 10 = Finite 10"
  "fl (100 / 97) = Finite (290180388361501 / 281474976710656)"
  "fl (28147497671065597 / 281474976710656) = Finite (7036874417766399 / 70368744177664)"
  by code_simp+

section \<open>The specification's example, evaluated\<close>

lemma float_examples:
  "float_div (Finite 100) (Finite 97) = Inr (Finite (290180388361501 / 281474976710656))"
  "float_mul (Finite 97) (Finite (290180388361501 / 281474976710656)) =
     Finite (7036874417766399 / 70368744177664)"
  by code_simp+

lemma example_modifier: "modifier_of example_stats = Inr (Finite 2)"
  by (simp add: modifier_of_def example_stats_def fl_examples)

lemma example_candidates:
  "candidates_of (Finite 2) 80 example_stats = [\<lparr>stat.name = ''A'', stat.percent = Finite 50\<rparr>]"
  by (simp add: candidates_of_def example_stats_def fl_examples)

lemma example_sorted:
  "sorted_by_unlocked (l_schema_achievements (enrich \<lparr>l_achievements = example_stats,
       l_schema_achievements = map as_item example_schema\<rparr>)) =
   Inr [(Finite 50, \<lparr>name = ''A'', displayName = ''Alpha'', percent = Some (Finite 50)\<rparr>),
        (Finite 10, \<lparr>name = ''B'', displayName = ''Beta'', percent = Some (Finite 10)\<rparr>)]"
  by (simp add: enrich_def example_stats_def example_schema_def as_item_def sorted_by_unlocked_def)

lemma schema_fetch_error:
  "get_schema_for_game http key app_id t = (Inl e, t') \<Longrightarrow> e \<noteq> IndexError"
  by (auto simp: get_schema_for_game_def dest: api_call_error)

lemma sorted_by_unlocked_error:
  "sorted_by_unlocked items = Inl e \<Longrightarrow> e = KeyError ''percent''"
  by (auto simp: sorted_by_unlocked_def key_percent_cases split: if_splits)

text \<open>
  An infinite first percent: \<open>100.0 / inf\<close> is 0.0 and \<open>inf * 0.0\<close> is NaN, which is not
  at least any cutoff, so the entry is no candidate.
\<close>

lemma infinite_percent:
  "modifier_of [\<lparr>stat.name = ''A'', stat.percent = PosInf\<rparr>] = Inr (Finite 0)"
  "candidates_of (Finite 0) 80 [\<lparr>stat.name = ''A'', stat.percent = PosInf\<rparr>] = []"
  by (simp_all add: modifier_of_def candidates_of_def)

section \<open>Facts about the patterns\<close>

text \<open>
  The patterns on inputs with a line feed: \<open>$\<close> accepts one final line feed, \<open>.\<close> stops at
  every line feed, and the search goes on to a later \<open>id/\<close> when an earlier one fails.
\<close>

lemma pattern_examples:
  "match_steamid64 (''12345678901234567'' @ [newline])"
  "re_search match_profiles (''x/profiles/12345678901234567'' @ [newline]) = Some ''12345678901234567''"
  "re_search match_profiles ''profiles/123456789012345678'' = None"
  "re_search match_id (''id/foo'' @ [newline]) = Some ''foo''"
  "re_search match_id ''id/x/id/y'' = Some ''x/id/y''"
  "re_search match_id (''id/a'' @ newline # ''id/b'') = Some ''b''"
  "re_search match_id (''id/a'' @ newline # ''b'') = None"
  by (simp_all add: match_steamid64_def match_profiles_def match_id_def digits17_def digit_def
      at_dollar_def newline_def)

lemma re_search_skip:
  "(\<forall>k<length pre. m (drop k (pre @ rest)) = None) \<Longrightarrow>
     re_search m (pre @ rest) = re_search m rest"
proof (induction pre)
  case Nil
  show ?case by simp
next
  case (Cons c pre)
  have "0 < length (c # pre)" by simp
  with Cons.prems have "m (drop 0 ((c # pre) @ rest)) = None" by blast
  then have h0: "m (c # pre @ rest) = None" by simp
  have "\<forall>k<length pre. m (drop k (pre @ rest)) = None"
  proof (intro allI impI)
    fix k assume "k < length pre"
    then have "Suc k < length (c # pre)" by simp
    with Cons.prems have "m (drop (Suc k) ((c # pre) @ rest)) = None" by blast
    then show "m (drop k (pre @ rest)) = None" by simp
  qed
  from Cons.IH [OF this] h0 show ?case by simp
qed

lemma re_search_here: "m s = Some g \<Longrightarrow> re_search m s = Some g"
  by (cases s) simp_all

lemma digit_not_newline: "digit c \<Longrightarrow> c \<noteq> newline"
  by (auto simp: digit_def newline_def)

lemma match_steamid64_length: "18 < length s \<Longrightarrow> \<not> match_steamid64 s"
  by (auto simp: match_steamid64_def at_dollar_def dest!: arg_cong [where f = length])

lemma match_profiles_length:
  assumes "26 < length s" and "last s \<noteq> newline"
  shows "match_profiles s = None"
proof -
  have d: "drop 17 (drop 9 s) = drop 26 s" by simp
  have "drop 26 s \<noteq> []" using assms(1) by simp
  moreover have "drop 26 s \<noteq> [newline]"
  proof
    assume e: "drop 26 s = [newline]"
    have "last (drop 26 s) = last s" using assms(1) by (simp add: last_drop)
    with e assms(2) show False by simp
  qed
  ultimately have "\<not> at_dollar (drop 17 (drop 9 s))"
    unfolding d by (simp add: at_dollar_def)
  then show ?thesis by (simp add: match_profiles_def Let_def)
qed

lemma match_profiles_here: "digits17 ds \<Longrightarrow> match_profiles (''profiles/'' @ ds) = Some ds"
  by (simp add: match_profiles_def digits17_def at_dollar_def)

lemma match_id_here: "newline \<notin> set v \<Longrightarrow> match_id (''id/'' @ v) = Some v"
  by (auto simp: match_id_def at_dollar_def)

lemma get_id_from_vanity_one_call:
  "\<exists>r. get_id_from_vanity http key vanity t =
     (r, t\<lparr>calls := calls t @ [(vanity_template, [(''key'', TStr key), (''vanity'', TStr vanity)])]\<rparr>)"
  by (auto simp: get_id_from_vanity_def steam_api_call_json_def Let_def
      split: option.splits json.splits)

section \<open>Game selector\<close>

text \<open>
  C1, as the code has it: when the identifier is resolved, the owned games are fetched and
  the candidate list is empty, \<open>pick_random_game\<close> fails with the IndexError of
  \<open>random.choice\<close>; nothing guards the call.
\<close>

theorem empty_candidates_index_error:
  assumes "parse_id_input http user_id key t = (Inr steam_id, t1)"
    and "get_owned_games http key steam_id t1 = (Inr owned_games, t2)"
    and "selectable_games all_games time_played owned_games = []"
  shows "pick_random_game http randbelow key user_id all_games time_played t = (Inl IndexError, t2)"
  using assms by (simp add: pick_random_game_def choice_def)

theorem empty_candidates_index_error_witness:
  "pick_random_game (library_http []) always_first ''K'' ''76561197960287930'' False 0 no_trace =
   (Inl IndexError,
    \<lparr>calls = [(owned_games_template, [(''key'', TStr ''K''), (''id'', TStr ''76561197960287930'')])],
     printed = []\<rparr>)"
proof -
  have p: "parse_id_input (library_http []) ''76561197960287930'' ''K'' no_trace =
      (Inr ''76561197960287930'', no_trace)"
    by (rule parse_steamid64_example)
  have g: "get_owned_games (library_http []) ''K'' ''76561197960287930'' no_trace =
      (Inr [], no_trace\<lparr>calls := calls no_trace @
         [(owned_games_template, [(''key'', TStr ''K''), (''id'', TStr ''76561197960287930'')])]\<rparr>)"
    by (rule owned_games_library)
  have s: "selectable_games False 0 [] = []"
    by (simp add: selectable_games_def)
  show ?thesis
    using empty_candidates_index_error [OF p g s, of always_first] by (simp add: no_trace_def)
qed

text \<open>
  C1 as stated fails: with an empty library the error of \<open>pick_random_game\<close> is the
  IndexError of the random choice, not EmptySelectionError.
\<close>

theorem empty_candidates_not_EmptySelectionError:
  "fst (pick_random_game (library_http []) always_first ''K'' ''76561197960287930'' False 0 no_trace)
     = Inl IndexError
   \<and> fst (pick_random_game (library_http []) always_first ''K'' ''76561197960287930'' False 0 no_trace)
     \<noteq> Inl EmptySelectionError"
  by (simp add: pick_random_game_def parse_steamid64_example owned_games_library
      selectable_games_def choice_def)

text \<open>
  C3: once the owned games are fetched, the candidate list is the whole list when
  \<open>all_games\<close> is set and otherwise the games with \<open>playtime_forever <= time_played\<close> (with
  threshold 0 and non-negative play times: the games never played); a non-empty candidate
  list yields a game, and every game returned is one of the candidates.
\<close>

theorem game_selector_candidates:
  assumes "parse_id_input http user_id key t = (Inr steam_id, t1)"
    and "get_owned_games http key steam_id t1 = (Inr owned_games, t2)"
  shows "(all_games \<longrightarrow> selectable_games all_games time_played owned_games = owned_games)
       \<and> (\<not> all_games \<longrightarrow> selectable_games all_games time_played owned_games =
            filter (\<lambda>g. playtime_forever g \<le> time_played) owned_games)
       \<and> (\<not> all_games \<and> time_played = 0 \<and> (\<forall>g\<in>set owned_games. 0 \<le> playtime_forever g) \<longrightarrow>
            selectable_games all_games time_played owned_games =
            filter (\<lambda>g. playtime_forever g = 0) owned_games)
       \<and> (selectable_games all_games time_played owned_games \<noteq> [] \<longrightarrow>
            (\<exists>g\<in>set (selectable_games all_games time_played owned_games).
               pick_random_game http randbelow key user_id all_games time_played t = (Inr g, t2)))
       \<and> (\<forall>g t'. pick_random_game http randbelow key user_id all_games time_played t = (Inr g, t') \<longrightarrow>
            g \<in> set (selectable_games all_games time_played owned_games))"
proof -
  have zero: "(\<forall>g\<in>set owned_games. 0 \<le> playtime_forever g) \<Longrightarrow>
      filter (\<lambda>g. playtime_forever g \<le> 0) owned_games = filter (\<lambda>g. playtime_forever g = 0) owned_games"
    by (rule filter_cong) auto
  have run: "pick_random_game http randbelow key user_id all_games time_played t =
      (choice randbelow (selectable_games all_games time_played owned_games), t2)"
    using assms by (simp add: pick_random_game_def)
  show ?thesis
    using zero choice_nonempty [of "selectable_games all_games time_played owned_games" randbelow]
    by (auto simp: run selectable_games_def dest: choice_member)
qed

theorem game_selector_candidates_witness:
  "selectable_games False 0
      [\<lparr>appid = 10, game.name = ''A'', playtime_forever = 0\<rparr>,
       \<lparr>appid = 20, game.name = ''B'', playtime_forever = 50\<rparr>] =
      [\<lparr>appid = 10, game.name = ''A'', playtime_forever = 0\<rparr>]
   \<and> fst (pick_random_game
      (library_http [\<lparr>appid = 10, game.name = ''A'', playtime_forever = 0\<rparr>,
          \<lparr>appid = 20, game.name = ''B'', playtime_forever = 50\<rparr>])
      always_first ''K'' ''76561197960287930'' False 0 no_trace) =
     Inr \<lparr>appid = 10, game.name = ''A'', playtime_forever = 0\<rparr>"
proof -
  let ?gs = "[\<lparr>appid = 10, game.name = ''A'', playtime_forever = 0\<rparr>,
       \<lparr>appid = 20, game.name = ''B'', playtime_forever = 50\<rparr>]"
  have p: "parse_id_input (library_http ?gs) ''76561197960287930'' ''K'' no_trace =
      (Inr ''76561197960287930'', no_trace)"
    by (rule parse_steamid64_example)
  have g: "get_owned_games (library_http ?gs) ''K'' ''76561197960287930'' no_trace =
      (Inr ?gs, no_trace\<lparr>calls := calls no_trace @
         [(owned_games_template, [(''key'', TStr ''K''), (''id'', TStr ''76561197960287930'')])]\<rparr>)"
    by (rule owned_games_library)
  show ?thesis
    using game_selector_candidates [OF p g, of False 0 always_first] by auto
qed

section \<open>Achievement selector\<close>

text \<open>
  C4: when the percentages list fetched for the app is empty, \<open>get_random_achievement\<close>
  prints "No achievements for this game", returns None, and the only request it has sent
  is the one for the percentages: the schema endpoint is not called.
\<close>

theorem empty_percentages_no_selection:
  assumes "http (achievement_stats_template, [(''game_id'', TInt appid')]) =
             \<lparr>status_code = 200, body = Some (GetGlobalAchievementPercentagesForApp [])\<rparr>"
  shows "get_random_achievement http randbelow key appid' cutoff t =
           (Inr None,
            t\<lparr>calls := calls t @ [(achievement_stats_template, [(''game_id'', TInt appid')])],
              printed := printed t @ [Text ''No achievements for this game'']\<rparr>)
         \<and> (\<forall>toks. (schema_template, toks) \<noteq> (achievement_stats_template, [(''game_id'', TInt appid')]))"
  using assms
  by (simp add: get_random_achievement_def get_achievement_stats_for_game_def
      steam_api_call_json_def schema_template_def achievement_stats_template_def)

theorem empty_percentages_no_selection_witness:
  "get_random_achievement
     (\<lambda>r. \<lparr>status_code = 200, body = Some (GetGlobalAchievementPercentagesForApp [])\<rparr>)
     (\<lambda>n. 0) ''K'' 440 80 \<lparr>calls = [], printed = []\<rparr> =
   (Inr None,
    \<lparr>calls = [(achievement_stats_template, [(''game_id'', TInt 440)])],
     printed = [Text ''No achievements for this game'']\<rparr>)"
  using empty_percentages_no_selection
    [of "\<lambda>r. \<lparr>status_code = 200, body = Some (GetGlobalAchievementPercentagesForApp [])\<rparr>"
        440 "\<lambda>n. 0" "''K''" 80 "\<lparr>calls = [], printed = []\<rparr>"]
  by simp

text \<open>
  C5: the enrichment loops leave the stats list as it is and keep the schema list's
  length; an entry whose name no stat has is unchanged, and any other entry differs from
  the original only in \<open>percent\<close>, which is the percent of the first stat of that name.
\<close>

theorem enrichment_frame:
  "l_achievements (enrich s) = l_achievements s
   \<and> length (l_schema_achievements (enrich s)) = length (l_schema_achievements s)
   \<and> (\<forall>i < length (l_schema_achievements s).
        l_schema_achievements (enrich s) ! i =
          (case find (\<lambda>st. stat.name st = schema_achievement.name (l_schema_achievements s ! i))
                  (l_achievements s) of
             None \<Rightarrow> l_schema_achievements s ! i
           | Some st \<Rightarrow> (l_schema_achievements s ! i)\<lparr>percent := Some (stat.percent st)\<rparr>)
        \<and> schema_achievement.name (l_schema_achievements (enrich s) ! i) =
            schema_achievement.name (l_schema_achievements s ! i)
        \<and> displayName (l_schema_achievements (enrich s) ! i) = displayName (l_schema_achievements s ! i)
        \<and> item.more (l_schema_achievements (enrich s) ! i) = item.more (l_schema_achievements s ! i))"
  by (auto simp: enrich_def enrich_item_find split: option.splits)

theorem enrichment_frame_witness:
  "l_schema_achievements
     (enrich \<lparr>l_achievements = [\<lparr>stat.name = ''B'', stat.percent = Finite 10\<rparr>,
                                \<lparr>stat.name = ''A'', stat.percent = Finite 50\<rparr>,
                                \<lparr>stat.name = ''A'', stat.percent = Finite 7\<rparr>],
              l_schema_achievements = [\<lparr>name = ''A'', displayName = ''Alpha'', percent = None\<rparr>,
                                       \<lparr>name = ''Z'', displayName = ''Zed'', percent = None\<rparr>]\<rparr>) ! 0
   = \<lparr>name = ''A'', displayName = ''Alpha'', percent = Some (Finite 50)\<rparr>
   \<and> l_schema_achievements
     (enrich \<lparr>l_achievements = [\<lparr>stat.name = ''B'', stat.percent = Finite 10\<rparr>,
                                \<lparr>stat.name = ''A'', stat.percent = Finite 50\<rparr>,
                                \<lparr>stat.name = ''A'', stat.percent = Finite 7\<rparr>],
              l_schema_achievements = [\<lparr>name = ''A'', displayName = ''Alpha'', percent = None\<rparr>,
                                       \<lparr>name = ''Z'', displayName = ''Zed'', percent = None\<rparr>]\<rparr>) ! 1
   = \<lparr>name = ''Z'', displayName = ''Zed'', percent = None\<rparr>"
  using enrichment_frame
    [of "\<lparr>l_achievements = [\<lparr>stat.name = ''B'', stat.percent = Finite 10\<rparr>,
                                \<lparr>stat.name = ''A'', stat.percent = Finite 50\<rparr>,
                                \<lparr>stat.name = ''A'', stat.percent = Finite 7\<rparr>],
              l_schema_achievements = [\<lparr>name = ''A'', displayName = ''Alpha'', percent = None\<rparr>,
                                       \<lparr>name = ''Z'', displayName = ''Zed'', percent = None\<rparr>]\<rparr>"]
  by (simp add: All_less_Suc)

text \<open>
  C8: once a candidate is selected (the fetches, the modifier, the listing and the random
  choice have succeeded), \<open>get_random_achievement\<close> returns a display name: that of a
  schema entry of the candidate's name when there is one, and the empty string when there
  is none.
\<close>

theorem display_name_lookup:
  assumes "get_achievement_stats_for_game http appid' t = (Inr achievements, t1)"
    and "achievements \<noteq> []"
    and "get_schema_for_game http key appid' t1 = (Inr (GetSchemaForGame fetched), t2)"
    and "modifier_of achievements = Inr modifier"
    and "sorted_by_unlocked (l_schema_achievements (enrich \<lparr>l_achievements = achievements,
             l_schema_achievements = map as_item fetched\<rparr>)) = Inr sorted_list"
    and "choice randbelow (candidates_of modifier cutoff achievements) = Inr c"
  shows "\<exists>d t3. get_random_achievement http randbelow key appid' cutoff t = (Inr (Some d), t3)
           \<and> ((\<exists>e\<in>set fetched. schema_achievement.name e = stat.name c) \<longrightarrow>
                (\<exists>e\<in>set fetched. schema_achievement.name e = stat.name c \<and> displayName e = d))
           \<and> ((\<forall>e\<in>set fetched. schema_achievement.name e \<noteq> stat.name c) \<longrightarrow> d = [])"
proof -
  let ?items = "map (\<lambda>a. enrich_item (as_item a) achievements) fetched"
  let ?d = "find_display_name ?items (stat.name c) []"
  have run: "get_random_achievement http randbelow key appid' cutoff t =
      (Inr (Some ?d), t2\<lparr>printed := printed t2 @ map listing_line sorted_list\<rparr>)"
    using assms by (simp add: get_random_achievement_def Let_def enrich_items)
  have no: "(\<forall>e\<in>set fetched. schema_achievement.name e \<noteq> stat.name c) \<Longrightarrow> ?d = []"
    by (rule find_display_name_no_match) simp
  have yes: "(\<exists>e\<in>set fetched. schema_achievement.name e = stat.name c) \<Longrightarrow>
      (\<exists>e\<in>set fetched. schema_achievement.name e = stat.name c \<and> displayName e = ?d)"
    using find_display_name_match [of ?items "stat.name c" "[]"] by auto
  show ?thesis using run no yes by blast
qed

theorem display_name_lookup_witness:
  "\<exists>t3. get_random_achievement (fixed_http example_stats example_schema) always_first ''K'' 440 80
      no_trace = (Inr (Some ''Alpha''), t3)"
proof -
  have ne: "example_stats \<noteq> []" by (simp add: example_stats_def)
  have c: "choice always_first (candidates_of (Finite 2) 80 example_stats) =
      Inr \<lparr>stat.name = ''A'', stat.percent = Finite 50\<rparr>"
    by (simp add: example_candidates choice_def)
  show ?thesis
    using display_name_lookup [where key = "''K''" and appid' = 440 and t = no_trace,
        OF fixed_http_stats ne fixed_http_schema example_modifier example_sorted c]
    by (auto simp: example_schema_def)
qed

text \<open>
  C9: once the stats and the schema are fetched and the modifier is computed, the listing
  step succeeds exactly when every schema entry's name is the name of some stat. When
  some schema entry has no stat, \<open>get_random_achievement\<close> fails with the KeyError for
  \<open>percent\<close>, having printed nothing and selected nothing; otherwise it prints one line per
  schema entry and does not fail with that error.
\<close>

theorem listing_needs_every_percent:
  assumes "get_achievement_stats_for_game http appid' t = (Inr achievements, t1)"
    and "achievements \<noteq> []"
    and "get_schema_for_game http key appid' t1 = (Inr (GetSchemaForGame fetched), t2)"
    and "modifier_of achievements = Inr modifier"
  shows "((\<exists>sorted_list. sorted_by_unlocked (l_schema_achievements (enrich \<lparr>l_achievements = achievements,
             l_schema_achievements = map as_item fetched\<rparr>)) = Inr sorted_list) \<longleftrightarrow>
          (\<forall>e\<in>set fetched. schema_achievement.name e \<in> stat.name ` set achievements))
       \<and> ((\<exists>e\<in>set fetched. schema_achievement.name e \<notin> stat.name ` set achievements) \<longrightarrow>
            get_random_achievement http randbelow key appid' cutoff t = (Inl (KeyError ''percent''), t2))
       \<and> ((\<forall>e\<in>set fetched. schema_achievement.name e \<in> stat.name ` set achievements) \<longrightarrow>
            (\<exists>r t3 sorted_list. get_random_achievement http randbelow key appid' cutoff t = (r, t3)
               \<and> r \<noteq> Inl (KeyError ''percent'')
               \<and> length sorted_list = length fetched
               \<and> printed t3 = printed t2 @ map listing_line sorted_list))"
proof -
  let ?items = "map (\<lambda>a. enrich_item (as_item a) achievements) fetched"
  let ?unmatched = "\<exists>e\<in>set fetched. schema_achievement.name e \<notin> stat.name ` set achievements"
  let ?sorted = "rev (foldl (\<lambda>acc x. insort_lt x acc) [] (map (\<lambda>i. (the (percent i), i)) ?items))"
  have sorted: "sorted_by_unlocked ?items =
      (if ?unmatched then Inl (KeyError ''percent'') else Inr ?sorted)"
    by (simp add: sorted_by_unlocked_def key_percent_cases enrich_item_percent_None)
  have len: "length ?sorted = length fetched"
    by (simp add: length_foldl_insort_lt)
  have bad: "?unmatched \<Longrightarrow>
      get_random_achievement http randbelow key appid' cutoff t = (Inl (KeyError ''percent''), t2)"
    using assms by (simp add: get_random_achievement_def Let_def enrich_items sorted)
  have good: "\<not> ?unmatched \<Longrightarrow>
      get_random_achievement http randbelow key appid' cutoff t =
        (case choice randbelow (candidates_of modifier cutoff achievements) of
           Inl e \<Rightarrow> Inl e
         | Inr c \<Rightarrow> Inr (Some (find_display_name ?items (stat.name c) [])),
         t2\<lparr>printed := printed t2 @ map listing_line ?sorted\<rparr>)"
    using assms
    by (simp add: get_random_achievement_def Let_def enrich_items sorted split: sum.splits)
  have choice_err: "\<And>e. choice randbelow (candidates_of modifier cutoff achievements) = Inl e
      \<Longrightarrow> e = IndexError"
    by (auto simp: choice_def split: if_splits)
  have good': "\<exists>r t3 sorted_list. get_random_achievement http randbelow key appid' cutoff t = (r, t3)
               \<and> r \<noteq> Inl (KeyError ''percent'')
               \<and> length sorted_list = length fetched
               \<and> printed t3 = printed t2 @ map listing_line sorted_list"
    if m: "\<not> ?unmatched"
  proof -
    let ?r = "case choice randbelow (candidates_of modifier cutoff achievements) of
           Inl e \<Rightarrow> Inl e
         | Inr c \<Rightarrow> Inr (Some (find_display_name ?items (stat.name c) []))"
    have "?r \<noteq> Inl (KeyError ''percent'')"
      using choice_err by (auto split: sum.splits)
    then show ?thesis
      using good [OF m] len
      by (intro exI [of _ ?r] exI [of _ "t2\<lparr>printed := printed t2 @ map listing_line ?sorted\<rparr>"]
          exI [of _ ?sorted]) simp
  qed
  show ?thesis
    using bad good' by (auto simp: enrich_items sorted)
qed

theorem listing_needs_every_percent_witness:
  "get_random_achievement
     (fixed_http example_stats [\<lparr>name = ''A'', displayName = ''Alpha''\<rparr>, \<lparr>name = ''Z'', displayName = ''Zed''\<rparr>])
     always_first ''K'' 440 80 no_trace =
   (Inl (KeyError ''percent''),
    \<lparr>calls = [(achievement_stats_template, [(''game_id'', TInt 440)]),
              (schema_template, [(''key'', TStr ''K''), (''app_id'', TInt 440)])],
     printed = []\<rparr>)"
proof -
  have ne: "example_stats \<noteq> []" by (simp add: example_stats_def)
  show ?thesis
    using listing_needs_every_percent
        [where fetched = "[\<lparr>name = ''A'', displayName = ''Alpha''\<rparr>, \<lparr>name = ''Z'', displayName = ''Zed''\<rparr>]"
           and key = "''K''" and appid' = 440 and t = no_trace and randbelow = always_first
           and cutoff = 80,
         OF fixed_http_stats ne fixed_http_schema example_modifier]
    by (simp add: example_stats_def no_trace_def)
qed



text \<open>
  C10, as the code has it: for a non-empty percentages list whose first percent is a
  positive finite float and an integer cutoff of at most 99 (the default is 80), the modifier is
  computed, the first entry is among the candidates, the random choice yields an entry and
  \<open>get_random_achievement\<close> does not fail with the IndexError of an empty choice. The
  product of the percent and the modifier is 100 only up to two roundings. (For the
  infinite percent the modifier is 0.0 and the product is NaN, see \<open>infinite_percent\<close>.)
\<close>

theorem first_entry_is_candidate:
  assumes "get_achievement_stats_for_game http appid' t = (Inr achievements, t1)"
    and "achievements = a # rest"
    and "stat.percent a = Finite x" and "0 < x" and "is_binary64 x"
    and "cutoff \<le> 99"
  shows "(\<exists>m. modifier_of achievements = Inr m
            \<and> a \<in> set (candidates_of m cutoff achievements)
            \<and> (\<exists>c. choice randbelow (candidates_of m cutoff achievements) = Inr c))
       \<and> fst (get_random_achievement http randbelow key appid' cutoff t) \<noteq> Inl IndexError
       \<and> default_cutoff \<le> 99"
proof -
  from first_entry_kept [OF assms(4,5,6)] obtain m where
    m: "float_div (Finite 100) (Finite x) = Inr m"
    and keep: "float_ge_int (float_mul (Finite x) m) cutoff" by blast
  have mo: "modifier_of achievements = Inr m"
    using m assms(2,3) by (simp add: modifier_of_def)
  have mem: "a \<in> set (candidates_of m cutoff achievements)"
    using keep assms(2,3) by (simp add: candidates_of_def)
  then have ne: "candidates_of m cutoff achievements \<noteq> []" by auto
  from choice_nonempty [OF ne] obtain c where
    c: "choice randbelow (candidates_of m cutoff achievements) = Inr c" by blast
  have run: "fst (get_random_achievement http randbelow key appid' cutoff t) \<noteq> Inl IndexError"
    using assms(1,2) mo c
    by (auto simp: get_random_achievement_def Let_def split: prod.splits sum.splits json.splits
        dest: schema_fetch_error sorted_by_unlocked_error)
  show ?thesis using mo mem c run by (auto simp: default_cutoff_def)
qed

theorem first_entry_is_candidate_witness:
  "\<lparr>stat.name = ''A'', stat.percent = Finite 50\<rparr> \<in> set (candidates_of (Finite 2) 80 example_stats)
   \<and> fst (get_random_achievement (fixed_http example_stats example_schema) always_first ''K'' 440 80
        no_trace) \<noteq> Inl IndexError"
proof -
  have a: "example_stats = \<lparr>stat.name = ''A'', stat.percent = Finite 50\<rparr> #
      [\<lparr>stat.name = ''B'', stat.percent = Finite 10\<rparr>]"
    by (simp add: example_stats_def)
  have p: "stat.percent \<lparr>stat.name = ''A'', stat.percent = Finite 50\<rparr> = Finite 50" by simp
  have x: "(0::rat) < 50" by simp
  have b: "is_binary64 50" by (simp add: is_binary64_def fl_examples)
  have c: "(80::int) \<le> 99" by simp
  show ?thesis
    using first_entry_is_candidate
        [where http = "fixed_http example_stats example_schema" and appid' = 440 and t = no_trace
           and randbelow = always_first and key = "''K''",
         OF fixed_http_stats a p x b c] example_modifier
    by simp
qed

text \<open>
  C10 as stated fails at cutoff 100: for the float 97 the modifier is 100.0 / 97 rounded,
  the product 97 * modifier rounds to 99.99999999999999 (the float just below 100), so
  the single entry is not a candidate and the random choice raises IndexError.
\<close>

theorem cutoff_100_drops_first_entry:
  "is_binary64 97
   \<and> modifier_of [\<lparr>stat.name = ''A'', stat.percent = Finite 97\<rparr>] =
       Inr (Finite (290180388361501 / 281474976710656))
   \<and> float_mul (Finite 97) (Finite (290180388361501 / 281474976710656)) =
       Finite (7036874417766399 / 70368744177664)
   \<and> candidates_of (Finite (290180388361501 / 281474976710656)) 100
       [\<lparr>stat.name = ''A'', stat.percent = Finite 97\<rparr>] = []
   \<and> fst (get_random_achievement
       (fixed_http [\<lparr>stat.name = ''A'', stat.percent = Finite 97\<rparr>]
          [\<lparr>name = ''A'', displayName = ''Alpha''\<rparr>])
       always_first ''K'' 440 100 no_trace) = Inl IndexError"
proof -
  have b: "is_binary64 97" by (simp add: is_binary64_def fl_examples)
  have m: "modifier_of [\<lparr>stat.name = ''A'', stat.percent = Finite 97\<rparr>] =
       Inr (Finite (290180388361501 / 281474976710656))"
    by (simp add: modifier_of_def fl_examples)
  have p: "float_mul (Finite 97) (Finite (290180388361501 / 281474976710656)) =
       Finite (7036874417766399 / 70368744177664)"
    by (rule float_examples)
  have c: "candidates_of (Finite (290180388361501 / 281474976710656)) 100
       [\<lparr>stat.name = ''A'', stat.percent = Finite 97\<rparr>] = []"
    by (simp add: candidates_of_def fl_examples)
  have r: "fst (get_random_achievement
       (fixed_http [\<lparr>stat.name = ''A'', stat.percent = Finite 97\<rparr>]
          [\<lparr>name = ''A'', displayName = ''Alpha''\<rparr>])
       always_first ''K'' 440 100 no_trace) = Inl IndexError"
    by (simp add: get_random_achievement_def fixed_http_stats fixed_http_schema m c Let_def
        enrich_def as_item_def sorted_by_unlocked_def choice_def)
  show ?thesis using b m p c r by blast
qed

section \<open>Identifier resolver\<close>

text \<open>
  C6: an input that ends in \<open>profiles/\<close> followed by 17 ASCII digits resolves to these 17
  digits, and the trace is the one before the call: no request is sent. (Such an input is
  longer than 17 characters, so it is never a bare identifier.)
\<close>

theorem profiles_url_resolved:
  assumes "digits17 ds"
  shows "parse_id_input http (pre @ ''profiles/'' @ ds) api_key t = (Inr ds, t)"
proof -
  let ?s = "pre @ ''profiles/'' @ ds"
  have len: "length ds = 17" and ds: "ds \<noteq> []" using assms by (auto simp: digits17_def)
  have "digit (last ds)" using assms ds by (simp add: digits17_def list_all_iff)
  then have nl: "last ds \<noteq> newline" by (rule digit_not_newline)
  have 1: "\<not> match_steamid64 ?s"
    by (rule match_steamid64_length) (simp add: len)
  have "\<forall>k<length pre. match_profiles (drop k (pre @ (''profiles/'' @ ds))) = None"
  proof (intro allI impI)
    fix k assume k: "k < length pre"
    show "match_profiles (drop k (pre @ (''profiles/'' @ ds))) = None"
    proof (rule match_profiles_length)
      show "26 < length (drop k (pre @ ''profiles/'' @ ds))" using k by (simp add: len)
      show "last (drop k (pre @ ''profiles/'' @ ds)) \<noteq> newline" using k ds nl by simp
    qed
  qed
  from re_search_skip [OF this]
  have "re_search match_profiles ?s = re_search match_profiles (''profiles/'' @ ds)" .
  also have "\<dots> = Some ds"
    by (rule re_search_here) (rule match_profiles_here [OF assms])
  finally have 2: "re_search match_profiles ?s = Some ds" .
  show ?thesis by (simp only: parse_id_input_def 1 2 if_False option.case)
qed

theorem profiles_url_resolved_witness:
  "parse_id_input (vanity_http ''0'') ''https://steamcommunity.com/profiles/76561197960287930'' ''K''
      no_trace = (Inr ''76561197960287930'', no_trace)"
proof -
  have d: "digits17 ''76561197960287930''" by (simp add: digits17_def digit_def)
  show ?thesis
    using profiles_url_resolved [OF d, where pre = "''https://steamcommunity.com/''"
        and http = "vanity_http ''0''" and api_key = "''K''" and t = no_trace]
    by simp
qed

text \<open>
  C7, as the code has it: for an input that is neither a bare identifier nor a profiles
  URL and whose first \<open>id/\<close> is followed by text without a line feed, the resolver returns
  what the vanity lookup of that text returns, and the lookup sends exactly one request,
  with that text as the vanity name.
\<close>

theorem vanity_url_resolved:
  assumes "\<not> match_steamid64 s" and "re_search match_profiles s = None"
    and "s = pre @ ''id/'' @ vanity"
    and "\<forall>k<length pre. take 3 (drop k s) \<noteq> ''id/''"
    and "newline \<notin> set vanity"
  shows "parse_id_input http s api_key t = get_id_from_vanity http api_key vanity t
       \<and> (\<exists>r. get_id_from_vanity http api_key vanity t =
            (r, t\<lparr>calls := calls t @
               [(vanity_template, [(''key'', TStr api_key), (''vanity'', TStr vanity)])]\<rparr>))"
proof -
  have "\<forall>k<length pre. match_id (drop k (pre @ (''id/'' @ vanity))) = None"
    using assms(3,4) by (simp add: match_id_def Let_def)
  from re_search_skip [OF this]
  have "re_search match_id s = re_search match_id (''id/'' @ vanity)"
    by (simp only: assms(3))
  also have "\<dots> = Some vanity"
    by (rule re_search_here) (rule match_id_here [OF assms(5)])
  finally have 3: "re_search match_id s = Some vanity" .
  have "parse_id_input http s api_key t = get_id_from_vanity http api_key vanity t"
    by (simp only: parse_id_input_def assms(1,2) 3 if_False option.case)
  then show ?thesis using get_id_from_vanity_one_call by blast
qed

theorem vanity_url_resolved_witness:
  "parse_id_input (vanity_http ''76561197960287930'') ''steam/id/gabe'' ''K'' no_trace =
     (Inr ''76561197960287930'',
      \<lparr>calls = [(vanity_template, [(''key'', TStr ''K''), (''vanity'', TStr ''gabe'')])],
       printed = []\<rparr>)"
proof -
  have 1: "\<not> match_steamid64 ''steam/id/gabe''"
    by (simp add: match_steamid64_def digits17_def)
  have 2: "re_search match_profiles ''steam/id/gabe'' = None"
    by (simp add: match_profiles_def)
  have 3: "''steam/id/gabe'' = ''steam/'' @ ''id/'' @ ''gabe''" by simp
  have 4: "\<forall>k<length ''steam/''. take 3 (drop k ''steam/id/gabe'') \<noteq> ''id/''"
    by (simp add: All_less_Suc)
  have 5: "newline \<notin> set ''gabe''" by (simp add: newline_def)
  have g: "get_id_from_vanity (vanity_http ''76561197960287930'') ''K'' ''gabe'' no_trace =
     (Inr ''76561197960287930'',
      \<lparr>calls = [(vanity_template, [(''key'', TStr ''K''), (''vanity'', TStr ''gabe'')])],
       printed = []\<rparr>)"
    by (simp add: get_id_from_vanity_def steam_api_call_json_def vanity_http_def no_trace_def)
  show ?thesis
    using vanity_url_resolved [OF 1 2 3 4 5, where http = "vanity_http ''76561197960287930''"
        and api_key = "''K''" and t = no_trace] g
    by simp
qed

text \<open>
  C7 as stated fails when a line feed follows \<open>id/\<close>: \<open>.\<close> does not match it, the third
  pattern finds nothing, and the whole input, not the text after \<open>id/\<close>, is looked up.
\<close>

theorem vanity_with_line_feed:
  "\<not> match_steamid64 (''id/a'' @ newline # ''b'')
   \<and> re_search match_profiles (''id/a'' @ newline # ''b'') = None
   \<and> calls (snd (parse_id_input (vanity_http ''76561197960287930'') (''id/a'' @ newline # ''b'')
        ''K'' no_trace)) =
       [(vanity_template, [(''key'', TStr ''K''), (''vanity'', TStr (''id/a'' @ newline # ''b''))])]
   \<and> ''id/a'' @ newline # ''b'' \<noteq> ''a'' @ newline # ''b''"
  by (simp add: parse_id_input_def match_steamid64_def digits17_def match_profiles_def
      match_id_def at_dollar_def newline_def get_id_from_vanity_def steam_api_call_json_def
      vanity_http_def no_trace_def)

end
